theory Spec2Isabelle
  imports Complex_Main "HOL-Library.Word" "HOL-Library.AList" "HOL-Library.List_Lexorder"
begin

section \<open>Strings and values of the JavaScript runtime\<close>

text \<open>
  A JavaScript string is a sequence of UTF-16 code units, and \<open>length\<close> counts
  code units. String literals of the source that are plain ASCII are written with
  \<open>ascii\<close>; a character outside the Basic Multilingual Plane is written as its
  surrogate pair.
\<close>

type_synonym jsstring = "16 word list"

definition ascii :: "string \<Rightarrow> jsstring" where
  "ascii s = map (\<lambda>c. of_nat (of_char c)) s"

text \<open>
  Numbers: the finite values are modelled as exact reals (rounding to binary64 is
  not modelled); \<open>NaN\<close> and the two infinities are values of their own.
\<close>

datatype jsnum = Num real | NaN | PosInf | NegInf

datatype jsval =
    Undefined
  | Null
  | Bool bool
  | Number jsnum
  | Str jsstring
  | Arr "jsval list"
  | Obj "(jsstring \<times> jsval) list"

text \<open>ToBoolean, as used by \<open>||\<close>, \<open>!\<close> and \<open>if\<close>.\<close>

fun truthy :: "jsval \<Rightarrow> bool" where
  "truthy Undefined = False"
| "truthy Null = False"
| "truthy (Bool b) = b"
| "truthy (Number (Num r)) = (r \<noteq> 0)"
| "truthy (Number NaN) = False"
| "truthy (Number PosInf) = True"
| "truthy (Number NegInf) = True"
| "truthy (Str s) = (s \<noteq> [])"
| "truthy (Arr xs) = True"
| "truthy (Obj ps) = True"

text \<open>Decimal text of a non-negative integer, as template literals print it.\<close>

definition digit_unit :: "nat \<Rightarrow> 16 word" where
  "digit_unit d = of_nat (48 + d)"

fun show_nat :: "nat \<Rightarrow> jsstring" where
  "show_nat n = (if n < 10 then [digit_unit n] else show_nat (n div 10) @ [digit_unit (n mod 10)])"

declare show_nat.simps [simp del]

text \<open>
  What the source takes from the runtime and the repository does not define: the
  Unicode case mapping behind \<open>String.prototype.toLowerCase\<close>, the digits
  \<open>Number.prototype.toFixed(1)\<close> prints, and the text that string
  concatenation gives for the value \<open>Object.prototype\<close> holds under one of its
  property names. They are parameters of the model.
\<close>

record runtime =
  toLowerCase :: "jsstring \<Rightarrow> jsstring"
  toFixed1 :: "jsnum \<Rightarrow> jsstring"
  nativeText :: "jsstring \<Rightarrow> jsstring"

section \<open>Persistent store (local-backend.ts)\<close>

text \<open>
  Errors as values. \<open>Error msg\<close> is an explicit \<open>throw new Error(msg)\<close> of the
  source; the other constructors are failures raised by the runtime: a key that
  already exists on \<open>add\<close>, a property read on \<open>undefined\<close>, a rejected
  \<open>fetch\<close>, and a response body that is not JSON.
\<close>

datatype error = Error jsstring | ConstraintError | TypeError | FetchRejected | BodyRejected

datatype role = User | Assistant | System

datatype processing = Local | Cloud

record dataset =
  ds_id :: jsstring
  ds_name :: jsstring
  ds_data :: jsval
  ds_created :: nat
  ds_size :: nat

record stored_message =
  sm_role :: role
  sm_content :: jsstring
  sm_timestamp :: nat
  sm_processingType :: processing

record conversation =
  conv_id :: jsstring
  conv_messages :: "stored_message list"
  conv_created :: nat

text \<open>
  The three object stores of \<open>LocalFirstDB\<close>, each a list of records under their
  key (\<open>id\<close>, \<open>id\<close> and \<open>key\<close>), with at most one record per key.
\<close>

record database =
  datasets :: "(jsstring \<times> dataset) list"
  conversations :: "(jsstring \<times> conversation) list"
  settings :: "(jsstring \<times> jsval) list"

record LocalBackend =
  db :: "database option"
  pyodide :: bool
  isInitialized :: bool

text \<open>The field initialisers of the class: no database, no interpreter.\<close>

definition uninitialized :: LocalBackend where
  "uninitialized = \<lparr>db = None, pyodide = False, isInitialized = False\<rparr>"

text \<open>
  \<open>initialize\<close> opens the database the browser holds (\<open>persisted\<close>) and tries to
  load the interpreter (\<open>loads\<close> says whether \<open>loadPyodide\<close> returns one; if
  not, the field keeps its value); a second call does nothing.
\<close>

definition initialize :: "database \<Rightarrow> bool \<Rightarrow> LocalBackend \<Rightarrow> LocalBackend" where
  "initialize persisted loads be =
     (if isInitialized be then be
      else \<lparr>db = Some persisted, pyodide = (loads \<or> pyodide be), isInitialized = True\<rparr>)"

text \<open>
  \<open>IDBObjectStore.getAll\<close>: the records in ascending order of their keys. The
  requests to an open database are taken to succeed, except \<open>add\<close> under a key
  that is already stored.
\<close>

definition getAll :: "(jsstring \<times> 'r) list \<Rightarrow> 'r list" where
  "getAll store = map snd (sort_key fst store)"

text \<open>
  \<open>saveDataset\<close>; \<open>now\<close> is what \<open>Date.now()\<close> reads, \<open>created\<close> what
  \<open>new Date()\<close> reads, and \<open>json\<close> what \<open>JSON.stringify(data)\<close> returns
  (\<open>None\<close> for \<open>undefined\<close>, whose \<open>length\<close> cannot be read). \<open>add\<close>
  rejects a key that is already stored.
\<close>

definition saveDataset ::
  "nat \<Rightarrow> nat \<Rightarrow> jsstring option \<Rightarrow> LocalBackend \<Rightarrow> jsstring \<Rightarrow> jsval \<Rightarrow>
     error + (jsstring \<times> LocalBackend)" where
  "saveDataset now created json be name data =
     (case db be of
        None \<Rightarrow> Inl (Error (ascii ''Database not initialized''))
      | Some d \<Rightarrow>
          (case json of
             None \<Rightarrow> Inl TypeError
           | Some text \<Rightarrow>
               (let i = show_nat now;
                    rec = \<lparr>ds_id = i, ds_name = name, ds_data = data,
                           ds_created = created, ds_size = length text\<rparr>
                in if i \<in> fst ` set (datasets d) then Inl ConstraintError
                   else Inr (i, be\<lparr>db := Some (d\<lparr>datasets := datasets d @ [(i, rec)]\<rparr>)\<rparr>))))"

definition getDatasets :: "LocalBackend \<Rightarrow> dataset list" where
  "getDatasets be = (case db be of None \<Rightarrow> [] | Some d \<Rightarrow> getAll (datasets d))"

definition saveConversation :: "LocalBackend \<Rightarrow> conversation \<Rightarrow> error + LocalBackend" where
  "saveConversation be c =
     (case db be of
        None \<Rightarrow> Inr be
      | Some d \<Rightarrow>
          Inr (be\<lparr>db := Some (d\<lparr>conversations := AList.update (conv_id c) c (conversations d)\<rparr>)\<rparr>))"

definition getConversations :: "LocalBackend \<Rightarrow> conversation list" where
  "getConversations be = (case db be of None \<Rightarrow> [] | Some d \<Rightarrow> getAll (conversations d))"

definition setSetting :: "LocalBackend \<Rightarrow> jsstring \<Rightarrow> jsval \<Rightarrow> error + LocalBackend" where
  "setSetting be key v =
     (case db be of
        None \<Rightarrow> Inr be
      | Some d \<Rightarrow> Inr (be\<lparr>db := Some (d\<lparr>settings := AList.update key v (settings d)\<rparr>)\<rparr>))"

text \<open>\<open>setting?.value || null\<close>: a missing record and a falsy value both read as \<open>null\<close>.\<close>

definition getSetting :: "LocalBackend \<Rightarrow> jsstring \<Rightarrow> jsval" where
  "getSetting be key =
     (case db be of
        None \<Rightarrow> Null
      | Some d \<Rightarrow>
          (case map_of (settings d) key of
             None \<Rightarrow> Null
           | Some v \<Rightarrow> if truthy v then v else Null))"

text \<open>A database with nothing stored and the backend initialised on it, for evaluating the model.\<close>

definition empty_database :: database where
  "empty_database = \<lparr>datasets = [], conversations = [], settings = []\<rparr>"

definition fresh_backend :: LocalBackend where
  "fresh_backend = initialize empty_database False uninitialized"

section \<open>Text primitives\<close>

text \<open>The class \<open>\s\<close> of a regular expression, which is also what \<open>trim\<close> removes.\<close>

definition is_ws :: "16 word \<Rightarrow> bool" where
  "is_ws c = (c \<in> {0x9, 0xA, 0xB, 0xC, 0xD, 0x20, 0xA0, 0x1680, 0x2028, 0x2029,
                    0x202F, 0x205F, 0x3000, 0xFEFF} \<or> (0x2000 \<le> c \<and> c \<le> 0x200A))"

text \<open>The class \<open>\w\<close>: ASCII letters, digits and the underscore.\<close>

definition is_word_unit :: "16 word \<Rightarrow> bool" where
  "is_word_unit c = ((0x30 \<le> c \<and> c \<le> 0x39) \<or> (0x41 \<le> c \<and> c \<le> 0x5A) \<or> c = 0x5F \<or>
                     (0x61 \<le> c \<and> c \<le> 0x7A))"

definition is_digit :: "16 word \<Rightarrow> bool" where
  "is_digit c = (0x30 \<le> c \<and> c \<le> 0x39)"

text \<open>
  \<open>s.split(/\s+/)\<close>: the pieces between the maximal runs of whitespace; a run at
  the start or the end leaves an empty piece there, and a string with no whitespace
  (the empty string too) is one piece.
\<close>

function split_ws_from :: "jsstring \<Rightarrow> jsstring \<Rightarrow> jsstring list" where
  "split_ws_from cur [] = [cur]"
| "split_ws_from cur (c # cs) =
     (if is_ws c then cur # split_ws_from [] (dropWhile is_ws cs)
      else split_ws_from (cur @ [c]) cs)"
  by pat_completeness auto
termination
  by (relation "measure (\<lambda>(cur, s). length s)") (simp_all add: length_dropWhile_le less_Suc_eq_le)

definition split_ws :: "jsstring \<Rightarrow> jsstring list" where
  "split_ws s = split_ws_from [] s"

text \<open>\<open>s.split(sep)\<close> for a separator of one code unit.\<close>

fun split_from :: "16 word \<Rightarrow> jsstring \<Rightarrow> jsstring \<Rightarrow> jsstring list" where
  "split_from sep cur [] = [cur]"
| "split_from sep cur (c # cs) =
     (if c = sep then cur # split_from sep [] cs else split_from sep (cur @ [c]) cs)"

definition split_on :: "16 word \<Rightarrow> jsstring \<Rightarrow> jsstring list" where
  "split_on sep s = split_from sep [] s"

definition trim :: "jsstring \<Rightarrow> jsstring" where
  "trim s = rev (dropWhile is_ws (rev (dropWhile is_ws s)))"

fun starts_with :: "jsstring \<Rightarrow> jsstring \<Rightarrow> bool" where
  "starts_with s [] = True"
| "starts_with [] (p # ps) = False"
| "starts_with (c # cs) (p # ps) = (c = p \<and> starts_with cs ps)"

text \<open>\<open>s.includes(sub)\<close>: \<open>sub\<close> occurs in \<open>s\<close> as a contiguous run.\<close>

fun includes_sub :: "jsstring \<Rightarrow> jsstring \<Rightarrow> bool" where
  "includes_sub [] sub = (sub = [])"
| "includes_sub (c # cs) sub = (starts_with (c # cs) sub \<or> includes_sub cs sub)"

definition endsWith :: "jsstring \<Rightarrow> jsstring \<Rightarrow> bool" where
  "endsWith s suffix = (length suffix \<le> length s \<and> drop (length s - length suffix) s = suffix)"

text \<open>\<open>xs.join(sep)\<close> on strings.\<close>

fun join :: "jsstring \<Rightarrow> jsstring list \<Rightarrow> jsstring" where
  "join sep [] = []"
| "join sep [x] = x"
| "join sep (x # y # ys) = x @ sep @ join sep (y # ys)"


section \<open>Local analyzer (local-backend.ts)\<close>

definition positiveWords :: "jsstring list" where
  "positiveWords = map ascii [''good'', ''great'', ''excellent'', ''amazing'', ''wonderful'',
                              ''fantastic'', ''love'', ''like'']"

definition negativeWords :: "jsstring list" where
  "negativeWords = map ascii [''bad'', ''terrible'', ''awful'', ''horrible'', ''hate'',
                              ''dislike'', ''poor'', ''worst'']"

text \<open>Division of two finite numbers: a zero divisor gives \<open>NaN\<close> or an infinity.\<close>

definition js_divide :: "real \<Rightarrow> real \<Rightarrow> jsnum" where
  "js_divide a b =
     (if b = 0 then (if a = 0 then NaN else if 0 < a then PosInf else NegInf)
      else Num (a / b))"

record sentiment_result =
  sentiment :: jsstring
  confidence :: jsnum
  positive :: nat
  negative :: nat

text \<open>The \<open>words\<close> of \<open>basicSentimentAnalysis\<close>.\<close>

definition sentiment_words :: "runtime \<Rightarrow> jsstring \<Rightarrow> jsstring list" where
  "sentiment_words rt text = split_ws (toLowerCase rt text)"

definition basicSentimentAnalysis :: "runtime \<Rightarrow> jsstring \<Rightarrow> sentiment_result" where
  "basicSentimentAnalysis rt text =
     (let words = sentiment_words rt text;
          pos = length (filter (\<lambda>word. word \<in> set positiveWords) words);
          neg = length (filter (\<lambda>word. word \<in> set negativeWords) words)
      in \<lparr>sentiment = (if neg < pos then ascii ''positive''
                        else if pos < neg then ascii ''negative'' else ascii ''neutral''),
          confidence = js_divide \<bar>real pos - real neg\<bar> (real (length words)),
          positive = pos,
          negative = neg\<rparr>)"

text \<open>
  The \<open>words\<close> of \<open>extractKeywords\<close>: lower case, every code unit outside
  \<open>\w\<close> and \<open>\s\<close> removed, split at whitespace, pieces of more than three code
  units kept.
\<close>

definition keyword_words :: "runtime \<Rightarrow> jsstring \<Rightarrow> jsstring list" where
  "keyword_words rt text =
     filter (\<lambda>word. 3 < length word)
       (split_ws (filter (\<lambda>c. is_word_unit c \<or> is_ws c) (toLowerCase rt text)))"

text \<open>
  \<open>frequency\<close> is a plain object: besides the properties the loop has set, a read
  finds what \<open>Object.prototype\<close> holds. Such a value is truthy and not a number, so
  \<open>(frequency[word] || 0) + 1\<close> is then a string, and so is every later sum on it.
\<close>

definition object_prototype :: "jsstring list" where
  "object_prototype = map ascii [''constructor'', ''__defineGetter__'', ''__defineSetter__'',
     ''hasOwnProperty'', ''__lookupGetter__'', ''__lookupSetter__'', ''isPrototypeOf'',
     ''propertyIsEnumerable'', ''toString'', ''valueOf'', ''__proto__'', ''toLocaleString'']"

datatype tally = Count nat | Text jsstring

text \<open>\<open>(frequency[word] || 0) + 1\<close>\<close>

definition next_tally :: "runtime \<Rightarrow> (jsstring \<times> tally) list \<Rightarrow> jsstring \<Rightarrow> tally" where
  "next_tally rt frequency word =
     (case map_of frequency word of
        Some (Count n) \<Rightarrow> Count (n + 1)
      | Some (Text t) \<Rightarrow> (if t = [] then Count 1 else Text (t @ ascii ''1''))
      | None \<Rightarrow>
          (if word \<in> set object_prototype then Text (nativeText rt word @ ascii ''1'')
           else Count 1))"

text \<open>
  \<open>obj[key] = v\<close> for a primitive \<open>v\<close> on a plain object: the property is set
  in place or added last, except under \<open>__proto__\<close>, whose inherited setter ignores
  a primitive.
\<close>

definition set_property :: "(jsstring \<times> 'v) list \<Rightarrow> jsstring \<Rightarrow> 'v \<Rightarrow> (jsstring \<times> 'v) list" where
  "set_property obj key v = (if key = ascii ''__proto__'' then obj else AList.update key v obj)"

definition digits_value :: "jsstring \<Rightarrow> nat" where
  "digits_value ds = foldl (\<lambda>n c. 10 * n + unat (c - 0x30)) 0 ds"

text \<open>
  A property name is an array index when it is the decimal text of an integer below
  \<open>2^32 - 1\<close>; \<open>Object.entries\<close> lists those first, in ascending order, and then
  the other names in the order they were added.
\<close>

definition array_index :: "jsstring \<Rightarrow> nat option" where
  "array_index key =
     (if key \<noteq> [] \<and> list_all is_digit key \<and> (key = ascii ''0'' \<or> hd key \<noteq> 0x30) \<and>
         digits_value key < 2 ^ 32 - 1
      then Some (digits_value key) else None)"

definition entries :: "(jsstring \<times> 'v) list \<Rightarrow> (jsstring \<times> 'v) list" where
  "entries obj =
     sort_key (\<lambda>(key, v). case array_index key of Some i \<Rightarrow> i | None \<Rightarrow> 0)
       (filter (\<lambda>(key, v). array_index key \<noteq> None) obj)
     @ filter (\<lambda>(key, v). array_index key = None) obj"

text \<open>
  \<open>Array.prototype.sort\<close> with a comparison function, as a stable insertion sort;
  \<open>after x y\<close> says that the comparison of \<open>x\<close> with \<open>y\<close> is positive.
\<close>

fun insert_by :: "('a \<Rightarrow> 'a \<Rightarrow> bool) \<Rightarrow> 'a \<Rightarrow> 'a list \<Rightarrow> 'a list" where
  "insert_by after x [] = [x]"
| "insert_by after x (y # ys) = (if after x y then y # insert_by after x ys else x # y # ys)"

definition sort_by :: "('a \<Rightarrow> 'a \<Rightarrow> bool) \<Rightarrow> 'a list \<Rightarrow> 'a list" where
  "sort_by after xs = foldr (insert_by after) xs []"

text \<open>
  The comparison \<open>([,a], [,b]) => b - a\<close> is positive when both counts are numbers
  and \<open>b\<close> is the larger; with a string count the difference is \<open>NaN\<close>, which
  \<open>sort\<close> reads as zero.
\<close>

fun count_after :: "jsstring \<times> tally \<Rightarrow> jsstring \<times> tally \<Rightarrow> bool" where
  "count_after (wa, Count a) (wb, Count b) = (a < b)"
| "count_after x y = False"

record keyword =
  word :: jsstring
  count :: tally

record keywords_result =
  keyword_list :: "keyword list"
  totalWords :: nat

definition count_words :: "runtime \<Rightarrow> jsstring list \<Rightarrow> (jsstring \<times> tally) list" where
  "count_words rt words =
     fold (\<lambda>word frequency. set_property frequency word (next_tally rt frequency word)) words []"

definition extractKeywords :: "runtime \<Rightarrow> jsstring \<Rightarrow> keywords_result" where
  "extractKeywords rt text =
     (let words = keyword_words rt text;
          frequency = count_words rt words
      in \<lparr>keyword_list = map (\<lambda>(w, c). \<lparr>word = w, count = c\<rparr>)
                          (take 10 (sort_by count_after (entries frequency))),
          totalWords = length words\<rparr>)"

text \<open>A runtime for evaluating the model on ASCII text.\<close>

definition lower_unit :: "16 word \<Rightarrow> 16 word" where
  "lower_unit c = (if 0x41 \<le> c \<and> c \<le> 0x5A then c + 0x20 else c)"

definition fixed1 :: "jsnum \<Rightarrow> jsstring" where
  "fixed1 x =
     (case x of
        Num r \<Rightarrow>
          (let n = nat \<lfloor>\<bar>r\<bar> * 10 + 1 / 2\<rfloor>
           in (if r < 0 then ascii ''-'' else []) @ show_nat (n div 10) @ ascii ''.'' @
              [digit_unit (n mod 10)])
      | NaN \<Rightarrow> ascii ''NaN''
      | PosInf \<Rightarrow> ascii ''Infinity''
      | NegInf \<Rightarrow> ascii ''-Infinity'')"

definition ascii_runtime :: runtime where
  "ascii_runtime =
     \<lparr>toLowerCase = map lower_unit,
      toFixed1 = fixed1,
      nativeText = (\<lambda>name. if name = ascii ''__proto__'' then ascii ''[object Object]''
                             else if name = ascii ''constructor''
                             then ascii ''function Object() { [native code] }''
                             else ascii ''function '' @ name @ ascii ''() { [native code] }'')\<rparr>"

section \<open>CSV import (DataUpload.tsx)\<close>

text \<open>
  \<open>parseFloat\<close>: leading whitespace is skipped, then the longest prefix that is a
  signed decimal literal (or \<open>Infinity\<close>) is read; text after it is ignored, and
  with no such prefix the result is \<open>NaN\<close>. The value is the exact decimal.
\<close>

definition split_sign :: "jsstring \<Rightarrow> real \<times> jsstring" where
  "split_sign s =
     (case s of
        [] \<Rightarrow> (1, [])
      | c # cs \<Rightarrow> if c = 0x2D then (- 1, cs) else if c = 0x2B then (1, cs) else (1, s))"

definition power10 :: "int \<Rightarrow> real" where
  "power10 e = (if 0 \<le> e then 10 ^ nat e else 1 / 10 ^ nat (- e))"

definition exponent_part :: "jsstring \<Rightarrow> int" where
  "exponent_part s =
     (case s of
        [] \<Rightarrow> 0
      | c # cs \<Rightarrow>
          if c = 0x65 \<or> c = 0x45 then
            (let (sg, rest) = split_sign cs; ds = takeWhile is_digit rest
             in if ds = [] then 0 else (if sg < 0 then - int (digits_value ds) else int (digits_value ds)))
          else 0)"

definition parseFloat :: "jsstring \<Rightarrow> jsnum" where
  "parseFloat s =
     (let (sg, body) = split_sign (dropWhile is_ws s) in
      if starts_with body (ascii ''Infinity'') then (if sg < 0 then NegInf else PosInf)
      else
        (let ip = takeWhile is_digit body;
             r1 = dropWhile is_digit body;
             dotted = (r1 \<noteq> [] \<and> hd r1 = 0x2E);
             fp = (if dotted then takeWhile is_digit (tl r1) else []);
             r2 = (if dotted then dropWhile is_digit (tl r1) else r1)
         in if ip = [] \<and> fp = [] then NaN
            else Num (sg * (real (digits_value ip) + real (digits_value fp) / 10 ^ length fp)
                      * power10 (exponent_part r2))))"

text \<open>\<open>values[index] || ''\<close>: a missing cell is the empty string.\<close>

definition cell :: "jsstring list \<Rightarrow> nat \<Rightarrow> jsstring" where
  "cell values index = (if index < length values then values ! index else [])"

text \<open>\<open>isNaN(numValue) ? value : numValue\<close>\<close>

definition coerce :: "jsstring \<Rightarrow> jsval" where
  "coerce v = (case parseFloat v of NaN \<Rightarrow> Str v | n \<Rightarrow> Number n)"

text \<open>\<open>.trim().replace(/"/g, '')\<close>\<close>

definition clean :: "jsstring \<Rightarrow> jsstring" where
  "clean s = filter (\<lambda>c. c \<noteq> 0x22) (trim s)"

definition parse_row :: "jsstring list \<Rightarrow> jsstring \<Rightarrow> jsval" where
  "parse_row headers line =
     (let values = map clean (split_on 0x2C line)
      in Obj (fold (\<lambda>(header, index) row. set_property row header (coerce (cell values index)))
                (zip headers [0..<length headers]) []))"

definition parseCSV :: "jsstring \<Rightarrow> jsval list" where
  "parseCSV text =
     (case split_on 0xA (trim text) of
        [] \<Rightarrow> []
      | first # rest \<Rightarrow> map (parse_row (map clean (split_on 0x2C first))) rest)"

section \<open>Cloud client (cloud-fallback.ts)\<close>

record GPTMessage =
  gpt_role :: role
  gpt_content :: jsstring

text \<open>\<open>GPTResponse\<close>: the \<open>message.content\<close> of each choice.\<close>

record GPTResponse =
  choices :: "jsstring list"

record CloudFallback =
  apiKey :: "jsstring option"
  isEnabled :: bool

record cloud_status =
  hasApiKey :: bool
  statusEnabled :: bool

record gpt_options =
  temperature :: "real option"
  maxTokens :: "nat option"

text \<open>The call to \<open>fetch\<close>: the endpoint, the bearer token and the JSON body.\<close>

record request =
  req_url :: jsstring
  req_authorization :: jsstring
  req_model :: jsstring
  req_messages :: "GPTMessage list"
  req_temperature :: real
  req_max_tokens :: nat

text \<open>
  What the network gives back: the promise of \<open>fetch\<close> is rejected, or it is a
  response with its \<open>ok\<close> flag, status and body (\<open>None\<close> for a body that
  \<open>response.json()\<close> rejects).
\<close>

record http_response =
  ok :: bool
  status :: nat
  statusText :: jsstring
  body :: "GPTResponse option"

datatype fetch_result = Rejected | Response http_response

definition setApiKey :: "CloudFallback \<Rightarrow> jsstring \<Rightarrow> CloudFallback" where
  "setApiKey cf key = cf\<lparr>apiKey := Some key\<rparr>"

definition setEnabled :: "CloudFallback \<Rightarrow> bool \<Rightarrow> CloudFallback" where
  "setEnabled cf enabled = cf\<lparr>isEnabled := enabled\<rparr>"

text \<open>\<open>!!this.apiKey\<close>: \<open>null\<close> and the empty string are no key.\<close>

definition key_set :: "CloudFallback \<Rightarrow> bool" where
  "key_set cf = (case apiKey cf of None \<Rightarrow> False | Some key \<Rightarrow> key \<noteq> [])"

definition getStatus :: "CloudFallback \<Rightarrow> cloud_status" where
  "getStatus cf = \<lparr>hasApiKey = key_set cf, statusEnabled = isEnabled cf\<rparr>"

text \<open>\<open>options.temperature || 0.7\<close> and \<open>options.maxTokens || 1000\<close>: zero is falsy.\<close>

definition gpt_request :: "jsstring \<Rightarrow> GPTMessage list \<Rightarrow> gpt_options \<Rightarrow> request" where
  "gpt_request key msgs options =
     \<lparr>req_url = ascii ''https://api.openai.com/v1/chat/completions'',
      req_authorization = ascii ''Bearer '' @ key,
      req_model = ascii ''gpt-4.1-2025-04-14'',
      req_messages = msgs,
      req_temperature = (case temperature options of
                           None \<Rightarrow> 7 / 10 | Some t \<Rightarrow> if t = 0 then 7 / 10 else t),
      req_max_tokens = (case maxTokens options of
                          None \<Rightarrow> 1000 | Some n \<Rightarrow> if n = 0 then 1000 else n)\<rparr>"

text \<open>
  \<open>processWithGPT\<close> returns the reply or the error, with the requests it has sent.
  \<open>data.choices[0]?.message.content || ''\<close> is the first choice, or the empty
  string when there is none.
\<close>

definition processWithGPT ::
  "CloudFallback \<Rightarrow> (request \<Rightarrow> fetch_result) \<Rightarrow> GPTMessage list \<Rightarrow> gpt_options \<Rightarrow>
     (error + jsstring) \<times> request list" where
  "processWithGPT cf fetch msgs options =
     (if \<not> isEnabled cf then (Inl (Error (ascii ''Cloud processing is disabled'')), [])
      else if \<not> key_set cf then (Inl (Error (ascii ''GPT API key not provided'')), [])
      else
        (let req = gpt_request (case apiKey cf of Some key \<Rightarrow> key | None \<Rightarrow> []) msgs options in
         case fetch req of
           Rejected \<Rightarrow> (Inl FetchRejected, [req])
         | Response r \<Rightarrow>
             if \<not> ok r
             then (Inl (Error (ascii ''GPT API error: '' @ show_nat (status r) @ ascii '' '' @
                               statusText r)), [req])
             else (case body r of
                     None \<Rightarrow> (Inl BodyRejected, [req])
                   | Some data \<Rightarrow>
                       (Inr (case choices data of [] \<Rightarrow> [] | c # cs \<Rightarrow> c), [req]))))"

definition no_options :: gpt_options where
  "no_options = \<lparr>temperature = None, maxTokens = None\<rparr>"

text \<open>\<open>conversationHistory.slice(-5)\<close>: the last five turns.\<close>

definition chatWithGPT ::
  "CloudFallback \<Rightarrow> (request \<Rightarrow> fetch_result) \<Rightarrow> jsstring \<Rightarrow> GPTMessage list \<Rightarrow>
     (error + jsstring) \<times> request list" where
  "chatWithGPT cf fetch userMessage conversationHistory =
     processWithGPT cf fetch
       ([\<lparr>gpt_role = System,
          gpt_content = ascii ''You are a helpful AI assistant for a local-first data analysis app. Be concise and practical.''\<rparr>]
        @ drop (length conversationHistory - 5) conversationHistory
        @ [\<lparr>gpt_role = User, gpt_content = userMessage\<rparr>])
       no_options"

section \<open>Query router (the chat component)\<close>

record Message =
  msg_id :: jsstring
  msg_role :: role
  msg_content :: jsstring
  msg_timestamp :: nat
  msg_processingType :: processing
  msg_isLoading :: "bool option"

record local_response =
  response :: jsstring
  needsCloudFallback :: bool

text \<open>\<open>x * 100\<close> on a number.\<close>

definition times100 :: "jsnum \<Rightarrow> jsnum" where
  "times100 x = (case x of Num r \<Rightarrow> Num (r * 100) | y \<Rightarrow> y)"

definition help_text :: jsstring where
  "help_text =
     ascii ''Here's what I can do locally:'' @ [0xA] @ ascii ''        '' @ [0xA] @
     [0xD83D, 0xDCCA] @
     ascii '' **Data Analysis**: Upload CSV/JSON files for analysis, statistics, and summaries'' @ [0xA] @
     [0xD83D, 0xDCDD] @
     ascii '' **Text Processing**: Sentiment analysis, keyword extraction, basic summarization  '' @ [0xA] @
     [0xD83D, 0xDCAC] @
     ascii '' **Simple Chat**: Basic conversations and help'' @ [0xA] @
     [0xD83D, 0xDD0D] @
     ascii '' **Local Search**: Find and filter your stored data'' @ [0xA] @ [0xA] @
     ascii ''For more advanced AI capabilities, you can enable cloud processing in the settings panel.''"

text \<open>
  \<open>processLocalQuery\<close>: the first rule that matches answers. The two calls of
  \<open>processTextLocally\<close> name the operations \<open>sentiment\<close> and \<open>keywords\<close>, which
  dispatch to \<open>basicSentimentAnalysis\<close> and \<open>extractKeywords\<close>.
\<close>

definition processLocalQuery :: "runtime \<Rightarrow> LocalBackend \<Rightarrow> jsstring \<Rightarrow> local_response" where
  "processLocalQuery rt be query =
     (let lowerQuery = toLowerCase rt query in
      if includes_sub lowerQuery (ascii ''data'') \<or> includes_sub lowerQuery (ascii ''analyze'') \<or>
         includes_sub lowerQuery (ascii ''dataset'')
      then
        (let stored = getDatasets be in
         if length stored = 0
         then \<lparr>response = ascii ''I can help you analyze data! Please upload a dataset first using the data upload section.'',
               needsCloudFallback = False\<rparr>
         else \<lparr>response = ascii ''I found '' @ show_nat (length stored) @
                 ascii '' dataset(s) in your local storage. I can perform basic analysis like summaries, statistics, and filtering. What would you like to know about your data?'',
               needsCloudFallback = False\<rparr>)
      else if includes_sub lowerQuery (ascii ''sentiment'') \<or> includes_sub lowerQuery (ascii ''feeling'') \<or>
              includes_sub lowerQuery (ascii ''emotion'')
      then
        (let s = basicSentimentAnalysis rt query in
         \<lparr>response = ascii ''Based on local sentiment analysis: This text appears to be **'' @
            sentiment s @ ascii ''** (confidence: '' @ toFixed1 rt (times100 (confidence s)) @
            ascii ''%). I detected '' @ show_nat (positive s) @ ascii '' positive and '' @
            show_nat (negative s) @ ascii '' negative indicators.'',
          needsCloudFallback = False\<rparr>)
      else if includes_sub lowerQuery (ascii ''keyword'') \<or>
              includes_sub lowerQuery (ascii ''important words'')
      then
        (let k = extractKeywords rt query in
         \<lparr>response = ascii ''Key words extracted locally: '' @
            join (ascii '', '') (map word (keyword_list k)),
          needsCloudFallback = False\<rparr>)
      else if includes_sub lowerQuery (ascii ''hello'') \<or> includes_sub lowerQuery (ascii ''hi'') \<or>
              includes_sub lowerQuery (ascii ''hey'')
      then \<lparr>response = ascii ''Hello! I'm running locally on your device. I can help you with data analysis, text processing, and simple conversations. What can I help you with today?'',
            needsCloudFallback = False\<rparr>
      else if includes_sub lowerQuery (ascii ''help'') \<or>
              includes_sub lowerQuery (ascii ''what can you do'')
      then \<lparr>response = help_text, needsCloudFallback = False\<rparr>
      else if 100 < length query \<or> includes_sub lowerQuery (ascii ''explain'') \<or>
              includes_sub lowerQuery (ascii ''complex'') \<or> includes_sub lowerQuery (ascii ''detailed'')
      then \<lparr>response = ascii ''This seems like a complex question that could benefit from advanced AI processing.'',
            needsCloudFallback = True\<rparr>
      else \<lparr>response = ascii ''I processed your message locally. For more sophisticated responses, you can enable cloud processing in settings. How else can I help you?'',
            needsCloudFallback = True\<rparr>)"

text \<open>The hint the router appends: two line feeds, a light bulb, and the sentence.\<close>

definition enable_hint :: jsstring where
  "enable_hint =
     [0xA, 0xA, 0xD83D, 0xDCA1] @
     ascii '' For more advanced responses, you can enable cloud processing in settings.''"

text \<open>
  What the \<open>try\<close> block of \<open>processMessage\<close> settles: the text and its origin,
  together with the calls of \<open>chatWithGPT\<close> it has made and the requests those have
  sent. \<open>messages\<close> is the list the component holds when the message arrives.
\<close>

record routed =
  reply :: jsstring
  origin :: processing
  cloud_calls :: "(jsstring \<times> GPTMessage list) list"
  sent :: "request list"

definition history :: "Message list \<Rightarrow> GPTMessage list" where
  "history messages =
     map (\<lambda>m. \<lparr>gpt_role = msg_role m, gpt_content = msg_content m\<rparr>)
       (filter (\<lambda>m. msg_role m \<noteq> Assistant \<or> msg_isLoading m \<noteq> Some True) messages)"

definition route ::
  "runtime \<Rightarrow> LocalBackend \<Rightarrow> CloudFallback \<Rightarrow> (request \<Rightarrow> fetch_result) \<Rightarrow> Message list \<Rightarrow>
     jsstring \<Rightarrow> routed" where
  "route rt be cf fetch messages userMessage =
     (let localResponse = processLocalQuery rt be userMessage in
      if needsCloudFallback localResponse then
        (let cloudStatus = getStatus cf in
         if statusEnabled cloudStatus \<and> hasApiKey cloudStatus then
           (case chatWithGPT cf fetch userMessage (history messages) of
              (Inr text, reqs) \<Rightarrow>
                \<lparr>reply = text, origin = Cloud,
                 cloud_calls = [(userMessage, history messages)], sent = reqs\<rparr>
            | (Inl cloudError, reqs) \<Rightarrow>
                \<lparr>reply = response localResponse @ enable_hint, origin = Local,
                 cloud_calls = [(userMessage, history messages)], sent = reqs\<rparr>)
         else \<lparr>reply = response localResponse @ enable_hint, origin = Local,
               cloud_calls = [], sent = []\<rparr>)
      else \<lparr>reply = response localResponse, origin = Local, cloud_calls = [], sent = []\<rparr>)"

text \<open>
  The update of the message list when the answer is there (lines 166 to 170): every
  entry whose identifier is the loading message's gets the text, the origin and
  \<open>isLoading: false\<close>; the others stay.
\<close>

definition completeLoading :: "jsstring \<Rightarrow> jsstring \<Rightarrow> processing \<Rightarrow> Message list \<Rightarrow> Message list" where
  "completeLoading loadingId text via prev =
     map (\<lambda>msg. if msg_id msg = loadingId
                 then msg\<lparr>msg_content := text, msg_processingType := via, msg_isLoading := Some False\<rparr>
                 else msg) prev"

text \<open>The update of the \<open>catch\<close> block (lines 176 to 185).\<close>

definition failLoading :: "jsstring \<Rightarrow> Message list \<Rightarrow> Message list" where
  "failLoading loadingId prev =
     map (\<lambda>msg. if msg_id msg = loadingId
                 then msg\<lparr>msg_content := ascii ''Sorry, I encountered an error processing your request. Please try again.'',
                          msg_processingType := Local, msg_isLoading := Some False\<rparr>
                 else msg) prev"

text \<open>
  \<open>processMessage\<close>: \<open>clock\<close> gives the four readings of the time in the order
  the source takes them. The user message and the loading message are appended, the
  answer is routed, and the loading message is completed. Nothing in \<open>route\<close> throws,
  so the \<open>catch\<close> block is not reached here.
\<close>

definition processMessage ::
  "runtime \<Rightarrow> LocalBackend \<Rightarrow> CloudFallback \<Rightarrow> (request \<Rightarrow> fetch_result) \<Rightarrow> (nat \<Rightarrow> nat) \<Rightarrow>
     Message list \<Rightarrow> jsstring \<Rightarrow> Message list \<times> routed" where
  "processMessage rt be cf fetch clock messages userMessage =
     (let userMsg = \<lparr>msg_id = show_nat (clock 0), msg_role = User, msg_content = userMessage,
                     msg_timestamp = clock 1, msg_processingType = Local, msg_isLoading = None\<rparr>;
          loadingMsg = \<lparr>msg_id = show_nat (clock 2 + 1), msg_role = Assistant, msg_content = [],
                        msg_timestamp = clock 3, msg_processingType = Local,
                        msg_isLoading = Some True\<rparr>;
          r = route rt be cf fetch messages userMessage
      in (completeLoading (msg_id loadingMsg) (reply r) (origin r) (messages @ [userMsg, loadingMsg]), r))"

text \<open>
  The conditions of the five rules of \<open>processLocalQuery\<close> that answer without the
  cloud (lines 201, 216, 224, 232 and 239), taken together.
\<close>

definition local_rule :: "runtime \<Rightarrow> jsstring \<Rightarrow> bool" where
  "local_rule rt query =
     (includes_sub (toLowerCase rt query) (ascii ''data'') \<or>
      includes_sub (toLowerCase rt query) (ascii ''analyze'') \<or>
      includes_sub (toLowerCase rt query) (ascii ''dataset'') \<or>
      includes_sub (toLowerCase rt query) (ascii ''sentiment'') \<or>
      includes_sub (toLowerCase rt query) (ascii ''feeling'') \<or>
      includes_sub (toLowerCase rt query) (ascii ''emotion'') \<or>
      includes_sub (toLowerCase rt query) (ascii ''keyword'') \<or>
      includes_sub (toLowerCase rt query) (ascii ''important words'') \<or>
      includes_sub (toLowerCase rt query) (ascii ''hello'') \<or>
      includes_sub (toLowerCase rt query) (ascii ''hi'') \<or>
      includes_sub (toLowerCase rt query) (ascii ''hey'') \<or>
      includes_sub (toLowerCase rt query) (ascii ''help'') \<or>
      includes_sub (toLowerCase rt query) (ascii ''what can you do''))"

text \<open>Cloud settings and network behaviours for evaluating the router.\<close>

definition cloud_off :: CloudFallback where
  "cloud_off = \<lparr>apiKey = None, isEnabled = False\<rparr>"

definition cloud_on :: CloudFallback where
  "cloud_on = setEnabled (setApiKey cloud_off (ascii ''sk-test'')) True"

definition unreachable :: "request \<Rightarrow> fetch_result" where
  "unreachable req = Rejected"

definition unauthorized :: "request \<Rightarrow> fetch_result" where
  "unauthorized req =
     Response \<lparr>ok = False, status = 401, statusText = ascii ''Unauthorized'', body = None\<rparr>"

section \<open>Properties of the persistent store\<close>

lemma fresh_backend_db: "db fresh_backend = Some empty_database"
  by (simp add: fresh_backend_def initialize_def uninitialized_def)

text \<open>
  Claim C1, as the code has it: with the database initialised, a setting written with a
  truthy value and read back at once is exactly the written value; and a key with no
  stored setting reads as \<open>null\<close>.
\<close>

theorem setting_roundtrip:
  "(db be \<noteq> None \<and> truthy v \<longrightarrow>
      (\<exists>be'. setSetting be k v = Inr be' \<and> getSetting be' k = v)) \<and>
   ((\<forall>d. db be = Some d \<longrightarrow> k \<notin> fst ` set (settings d)) \<longrightarrow> getSetting be k = Null)"
proof (intro conjI impI)
  assume a: "db be \<noteq> None \<and> truthy v"
  then obtain d where d: "db be = Some d" by auto
  show "\<exists>be'. setSetting be k v = Inr be' \<and> getSetting be' k = v"
    using a d by (simp add: setSetting_def getSetting_def update_conv')
next
  assume a: "\<forall>d. db be = Some d \<longrightarrow> k \<notin> fst ` set (settings d)"
  show "getSetting be k = Null"
  proof (cases "db be")
    case None
    then show ?thesis by (simp add: getSetting_def)
  next
    case (Some d)
    with a have "map_of (settings d) k = None"
      by (simp add: map_of_eq_None_iff)
    with Some show ?thesis by (simp add: getSetting_def)
  qed
qed

theorem setting_roundtrip_witness:
  "db fresh_backend \<noteq> None \<and> truthy (Str (ascii ''dark'')) \<and>
   (\<exists>be'. setSetting fresh_backend (ascii ''theme'') (Str (ascii ''dark'')) = Inr be' \<and>
          getSetting be' (ascii ''theme'') = Str (ascii ''dark'')) \<and>
   db fresh_backend = Some empty_database \<and>
   ascii ''theme'' \<notin> fst ` set (settings empty_database) \<and>
   getSetting fresh_backend (ascii ''theme'') = Null"
proof -
  have h1: "db fresh_backend \<noteq> None \<and> truthy (Str (ascii ''dark''))"
    by (simp add: fresh_backend_db ascii_def)
  have h2: "\<forall>d. db fresh_backend = Some d \<longrightarrow> ascii ''theme'' \<notin> fst ` set (settings d)"
    by (simp add: fresh_backend_db empty_database_def)
  have h3: "ascii ''theme'' \<notin> fst ` set (settings empty_database)"
    by (simp add: empty_database_def)
  from setting_roundtrip [of fresh_backend "Str (ascii ''dark'')" "ascii ''theme''"] h1 h2 h3
  show ?thesis by (simp add: fresh_backend_db)
qed

text \<open>
  Claim C1 as stated fails twice: before \<open>initialize\<close> the write is dropped, and a
  falsy value (here \<open>false\<close>, which the settings panel stores under
  \<open>cloudEnabled\<close>) reads back as \<open>null\<close>.
\<close>

theorem setting_roundtrip_counterexample:
  "setSetting uninitialized (ascii ''theme'') (Str (ascii ''dark'')) = Inr uninitialized \<and>
   getSetting uninitialized (ascii ''theme'') = Null \<and>
   Null \<noteq> Str (ascii ''dark'') \<and>
   setSetting fresh_backend (ascii ''cloudEnabled'') (Bool False) =
     Inr (fresh_backend\<lparr>db := Some (empty_database\<lparr>settings := [(ascii ''cloudEnabled'', Bool False)]\<rparr>)\<rparr>) \<and>
   getSetting (fresh_backend\<lparr>db := Some (empty_database\<lparr>settings := [(ascii ''cloudEnabled'', Bool False)]\<rparr>)\<rparr>)
     (ascii ''cloudEnabled'') = Null \<and>
   Null \<noteq> Bool False"
  by (simp add: setSetting_def getSetting_def uninitialized_def fresh_backend_db empty_database_def)

text \<open>
  Claim C4, as the code has it: with no database, \<open>saveDataset\<close> reports the explicit
  error, \<open>saveConversation\<close> and \<open>setSetting\<close> return without an error and store
  nothing, and the three reads return the empty list or \<open>null\<close>.
\<close>

theorem uninitialized_access:
  "db be = None \<Longrightarrow>
     saveDataset now created json be name data = Inl (Error (ascii ''Database not initialized'')) \<and>
     saveConversation be c = Inr be \<and>
     setSetting be k v = Inr be \<and>
     getDatasets be = [] \<and>
     getConversations be = [] \<and>
     getSetting be k = Null"
  by (simp add: saveDataset_def saveConversation_def setSetting_def getDatasets_def
      getConversations_def getSetting_def)

theorem uninitialized_access_witness:
  "db uninitialized = None \<and>
   saveDataset 7 7 (Some (ascii ''[]'')) uninitialized (ascii ''a.csv'') (Arr []) =
     Inl (Error (ascii ''Database not initialized'')) \<and>
   saveConversation uninitialized \<lparr>conv_id = ascii ''1'', conv_messages = [], conv_created = 7\<rparr> =
     Inr uninitialized \<and>
   setSetting uninitialized (ascii ''theme'') (Str (ascii ''dark'')) = Inr uninitialized \<and>
   getDatasets uninitialized = [] \<and>
   getConversations uninitialized = [] \<and>
   getSetting uninitialized (ascii ''theme'') = Null"
proof -
  have h: "db uninitialized = None" by (simp add: uninitialized_def)
  show ?thesis
    using h uninitialized_access [OF h, of 7 7 "Some (ascii ''[]'')" "ascii ''a.csv''" "Arr []"
        "\<lparr>conv_id = ascii ''1'', conv_messages = [], conv_created = 7\<rparr>"
        "ascii ''theme''" "Str (ascii ''dark'')"]
    by simp
qed

text \<open>
  Claim C4 as stated fails for two of the three write paths: without a database
  \<open>setSetting\<close> and \<open>saveConversation\<close> return normally, not with an error.
\<close>

theorem uninitialized_access_counterexample:
  "setSetting uninitialized (ascii ''theme'') (Str (ascii ''dark'')) = Inr uninitialized \<and>
   saveConversation uninitialized \<lparr>conv_id = ascii ''1'', conv_messages = [], conv_created = 7\<rparr> =
     Inr uninitialized"
  by (simp add: setSetting_def saveConversation_def uninitialized_def)

section \<open>Properties of the local analyzer\<close>

lemma split_ws_from_nonempty: "split_ws_from cur s \<noteq> []"
  by (induction cur s rule: split_ws_from.induct) simp_all

lemma split_ws_nonempty: "split_ws s \<noteq> []"
  by (simp add: split_ws_def split_ws_from_nonempty)

lemma word_lists_disjoint: "set positiveWords \<inter> set negativeWords = {}"
  by (simp add: positiveWords_def negativeWords_def ascii_def)

lemma disjoint_filters_length:
  "(\<And>x. \<not> (P x \<and> Q x)) \<Longrightarrow> length (filter P xs) + length (filter Q xs) \<le> length xs"
  by (induction xs) auto

lemma sentiment_counts_bounded:
  "length (filter (\<lambda>w. w \<in> set positiveWords) ws) + length (filter (\<lambda>w. w \<in> set negativeWords) ws)
     \<le> length ws"
  using word_lists_disjoint by (intro disjoint_filters_length) auto

text \<open>
  Claim C10: whatever the text, the words that \<open>basicSentimentAnalysis\<close> splits it
  into are at least one (the empty string is one empty piece, a single blank is two), so
  the division never has a zero divisor and the confidence is the finite quotient.
\<close>

theorem sentiment_total:
  "sentiment_words rt text \<noteq> [] \<and>
   split_ws [] = [[]] \<and>
   split_ws (ascii '' '') = [[], []] \<and>
   confidence (basicSentimentAnalysis rt text) =
     Num (\<bar>real (positive (basicSentimentAnalysis rt text)) -
           real (negative (basicSentimentAnalysis rt text))\<bar>
          / real (length (sentiment_words rt text)))"
proof (intro conjI)
  show words: "sentiment_words rt text \<noteq> []"
    by (simp add: sentiment_words_def split_ws_nonempty)
  show "split_ws [] = [[]]"
    by (simp add: split_ws_def)
  show "split_ws (ascii '' '') = [[], []]"
    by (simp add: split_ws_def ascii_def is_ws_def)
  have "real (length (sentiment_words rt text)) \<noteq> 0"
    using words by simp
  then show "confidence (basicSentimentAnalysis rt text) =
     Num (\<bar>real (positive (basicSentimentAnalysis rt text)) -
           real (negative (basicSentimentAnalysis rt text))\<bar>
          / real (length (sentiment_words rt text)))"
    by (simp add: basicSentimentAnalysis_def Let_def js_divide_def)
qed

text \<open>
  Claim C6: the confidence of \<open>basicSentimentAnalysis\<close> is a number between 0 and
  1; and with as many positive as negative words the label is \<open>neutral\<close> and the
  difference of the counts is 0.
\<close>

theorem sentiment_confidence_range:
  "(\<exists>c. confidence (basicSentimentAnalysis rt text) = Num c \<and> 0 \<le> c \<and> c \<le> 1) \<and>
   (positive (basicSentimentAnalysis rt text) = negative (basicSentimentAnalysis rt text) \<longrightarrow>
      sentiment (basicSentimentAnalysis rt text) = ascii ''neutral'' \<and>
      \<bar>int (positive (basicSentimentAnalysis rt text)) -
        int (negative (basicSentimentAnalysis rt text))\<bar> = 0 \<and>
      confidence (basicSentimentAnalysis rt text) = Num 0)"
proof -
  define ws where "ws = sentiment_words rt text"
  define p where "p = length (filter (\<lambda>w. w \<in> set positiveWords) ws)"
  define n where "n = length (filter (\<lambda>w. w \<in> set negativeWords) ws)"
  have len: "0 < length ws"
    using split_ws_nonempty by (simp add: ws_def sentiment_words_def)
  have bound: "p + n \<le> length ws"
    unfolding p_def n_def by (rule sentiment_counts_bounded)
  have conf: "confidence (basicSentimentAnalysis rt text) = Num (\<bar>real p - real n\<bar> / real (length ws))"
    using len by (simp add: basicSentimentAnalysis_def Let_def js_divide_def ws_def p_def n_def)
  have pos: "positive (basicSentimentAnalysis rt text) = p"
    and neg: "negative (basicSentimentAnalysis rt text) = n"
    by (simp_all add: basicSentimentAnalysis_def Let_def ws_def p_def n_def)
  have lab: "p = n \<Longrightarrow> sentiment (basicSentimentAnalysis rt text) = ascii ''neutral''"
    by (simp add: basicSentimentAnalysis_def Let_def ws_def p_def n_def)
  have "\<bar>real p - real n\<bar> \<le> real (length ws)"
    using bound by linarith
  then have le1: "\<bar>real p - real n\<bar> / real (length ws) \<le> 1"
    using len by (simp add: divide_le_eq)
  have ge0: "0 \<le> \<bar>real p - real n\<bar> / real (length ws)"
    by simp
  show ?thesis
    using conf pos neg lab le1 ge0 by auto
qed

theorem sentiment_confidence_range_witness:
  "positive (basicSentimentAnalysis ascii_runtime (ascii ''good but bad'')) =
     negative (basicSentimentAnalysis ascii_runtime (ascii ''good but bad'')) \<and>
   positive (basicSentimentAnalysis ascii_runtime (ascii ''good but bad'')) = 1 \<and>
   sentiment (basicSentimentAnalysis ascii_runtime (ascii ''good but bad'')) = ascii ''neutral'' \<and>
   confidence (basicSentimentAnalysis ascii_runtime (ascii ''good but bad'')) = Num 0"
proof -
  have w: "sentiment_words ascii_runtime (ascii ''good but bad'') = map ascii [''good'', ''but'', ''bad'']"
    by (simp add: sentiment_words_def ascii_runtime_def split_ws_def ascii_def is_ws_def lower_unit_def)
  have p: "positive (basicSentimentAnalysis ascii_runtime (ascii ''good but bad'')) = 1"
    by (simp add: basicSentimentAnalysis_def Let_def w) (simp add: positiveWords_def ascii_def)
  have n: "negative (basicSentimentAnalysis ascii_runtime (ascii ''good but bad'')) = 1"
    by (simp add: basicSentimentAnalysis_def Let_def w) (simp add: negativeWords_def ascii_def)
  from sentiment_confidence_range [of ascii_runtime "ascii ''good but bad''"] p n
  show ?thesis by simp
qed

section \<open>Properties of the message list\<close>

lemma completeLoading_twice:
  "completeLoading i t v (completeLoading i t v ms) = completeLoading i t v ms"
  by (induction ms) (simp_all add: completeLoading_def)

lemma failLoading_twice: "failLoading i (failLoading i ms) = failLoading i ms"
  by (induction ms) (simp_all add: failLoading_def)

lemma completeLoading_commute:
  "i \<noteq> j \<Longrightarrow>
     completeLoading i t v (completeLoading j t' v' ms) =
       completeLoading j t' v' (completeLoading i t v ms)"
  by (induction ms) (simp_all add: completeLoading_def)

lemma failLoading_commute:
  "i \<noteq> j \<Longrightarrow>
     failLoading i (completeLoading j t' v' ms) = completeLoading j t' v' (failLoading i ms)"
  by (induction ms) (simp_all add: completeLoading_def failLoading_def)

text \<open>
  Claim C9: the completion of the loading message goes by identifier, not by index: the
  identifiers stay in place, the update of a list is the update of its parts, applying it
  twice is applying it once, and updates for two different identifiers give the same
  list in either order. The same holds for the update of the \<open>catch\<close> block.
\<close>

theorem completion_by_identifier:
  "map msg_id (completeLoading i t v ms) = map msg_id ms \<and>
   completeLoading i t v (ms @ ms') = completeLoading i t v ms @ completeLoading i t v ms' \<and>
   completeLoading i t v (completeLoading i t v ms) = completeLoading i t v ms \<and>
   failLoading i (failLoading i ms) = failLoading i ms \<and>
   (i \<noteq> j \<longrightarrow>
      completeLoading i t v (completeLoading j t' v' ms) =
        completeLoading j t' v' (completeLoading i t v ms) \<and>
      failLoading i (completeLoading j t' v' ms) = completeLoading j t' v' (failLoading i ms))"
proof (intro conjI impI)
  show "map msg_id (completeLoading i t v ms) = map msg_id ms"
    by (induction ms) (simp_all add: completeLoading_def)
  show "completeLoading i t v (ms @ ms') = completeLoading i t v ms @ completeLoading i t v ms'"
    by (simp add: completeLoading_def)
  show "completeLoading i t v (completeLoading i t v ms) = completeLoading i t v ms"
    by (rule completeLoading_twice)
  show "failLoading i (failLoading i ms) = failLoading i ms"
    by (rule failLoading_twice)
next
  assume "i \<noteq> j"
  then show "completeLoading i t v (completeLoading j t' v' ms) =
        completeLoading j t' v' (completeLoading i t v ms)"
    by (rule completeLoading_commute)
next
  assume "i \<noteq> j"
  then show "failLoading i (completeLoading j t' v' ms) = completeLoading j t' v' (failLoading i ms)"
    by (rule failLoading_commute)
qed

text \<open>Two messages, for evaluating the updates.\<close>

theorem completion_by_identifier_witness:
  "ascii ''2'' \<noteq> ascii ''1'' \<and>
   completeLoading (ascii ''2'') (ascii ''done'') Cloud
     (completeLoading (ascii ''1'') (ascii ''first'') Local
        [\<lparr>msg_id = ascii ''1'', msg_role = Assistant, msg_content = [], msg_timestamp = 5,
          msg_processingType = Local, msg_isLoading = Some True\<rparr>,
         \<lparr>msg_id = ascii ''2'', msg_role = Assistant, msg_content = [], msg_timestamp = 6,
          msg_processingType = Local, msg_isLoading = Some True\<rparr>]) =
   completeLoading (ascii ''1'') (ascii ''first'') Local
     (completeLoading (ascii ''2'') (ascii ''done'') Cloud
        [\<lparr>msg_id = ascii ''1'', msg_role = Assistant, msg_content = [], msg_timestamp = 5,
          msg_processingType = Local, msg_isLoading = Some True\<rparr>,
         \<lparr>msg_id = ascii ''2'', msg_role = Assistant, msg_content = [], msg_timestamp = 6,
          msg_processingType = Local, msg_isLoading = Some True\<rparr>]) \<and>
   completeLoading (ascii ''1'') (ascii ''first'') Local
     (completeLoading (ascii ''2'') (ascii ''done'') Cloud
        [\<lparr>msg_id = ascii ''1'', msg_role = Assistant, msg_content = [], msg_timestamp = 5,
          msg_processingType = Local, msg_isLoading = Some True\<rparr>,
         \<lparr>msg_id = ascii ''2'', msg_role = Assistant, msg_content = [], msg_timestamp = 6,
          msg_processingType = Local, msg_isLoading = Some True\<rparr>]) =
     [\<lparr>msg_id = ascii ''1'', msg_role = Assistant, msg_content = ascii ''first'', msg_timestamp = 5,
       msg_processingType = Local, msg_isLoading = Some False\<rparr>,
      \<lparr>msg_id = ascii ''2'', msg_role = Assistant, msg_content = ascii ''done'', msg_timestamp = 6,
       msg_processingType = Cloud, msg_isLoading = Some False\<rparr>]"
proof -
  have h: "ascii ''2'' \<noteq> ascii ''1''" by (simp add: ascii_def)
  have e: "completeLoading (ascii ''1'') (ascii ''first'') Local
     (completeLoading (ascii ''2'') (ascii ''done'') Cloud
        [\<lparr>msg_id = ascii ''1'', msg_role = Assistant, msg_content = [], msg_timestamp = 5,
          msg_processingType = Local, msg_isLoading = Some True\<rparr>,
         \<lparr>msg_id = ascii ''2'', msg_role = Assistant, msg_content = [], msg_timestamp = 6,
          msg_processingType = Local, msg_isLoading = Some True\<rparr>]) =
     [\<lparr>msg_id = ascii ''1'', msg_role = Assistant, msg_content = ascii ''first'', msg_timestamp = 5,
       msg_processingType = Local, msg_isLoading = Some False\<rparr>,
      \<lparr>msg_id = ascii ''2'', msg_role = Assistant, msg_content = ascii ''done'', msg_timestamp = 6,
       msg_processingType = Cloud, msg_isLoading = Some False\<rparr>]"
    using h by (simp add: completeLoading_def)
  from completion_by_identifier [where i = "ascii ''2''" and t = "ascii ''done''" and v = Cloud
      and j = "ascii ''1''" and t' = "ascii ''first''" and v' = Local] h e
  show ?thesis by simp
qed

section \<open>Properties of the router\<close>

lemma endsWith_append: "endsWith (a @ b) b"
  by (simp add: endsWith_def)

lemma endsWith_iff: "endsWith s suffix \<longleftrightarrow> (\<exists>p. s = p @ suffix)"
proof
  assume "endsWith s suffix"
  then have "s = take (length s - length suffix) s @ suffix"
    by (metis append_take_drop_id endsWith_def)
  then show "\<exists>p. s = p @ suffix" ..
next
  assume "\<exists>p. s = p @ suffix"
  then show "endsWith s suffix" by (auto simp: endsWith_def)
qed

lemma local_rule_final: "local_rule rt query \<Longrightarrow> \<not> needsCloudFallback (processLocalQuery rt be query)"
  unfolding local_rule_def processLocalQuery_def Let_def by auto

lemma no_local_rule_fallback:
  "\<not> local_rule rt query \<Longrightarrow> needsCloudFallback (processLocalQuery rt be query)"
  unfolding local_rule_def processLocalQuery_def Let_def by simp

lemma processMessage_content:
  "msg_content (last (fst (processMessage rt be cf fetch clock messages query))) =
     reply (route rt be cf fetch messages query)"
  by (simp add: processMessage_def Let_def completeLoading_def)

lemma processMessage_routed:
  "snd (processMessage rt be cf fetch clock messages query) = route rt be cf fetch messages query"
  by (simp add: processMessage_def Let_def)

text \<open>
  Claim C2: a query that matches one of the five local rules is answered without the
  cloud fallback flag, and the router then returns that local answer with no call of the
  cloud client and no request sent, whatever the cloud settings are.
\<close>

theorem local_rules_stay_local:
  "local_rule rt query \<Longrightarrow>
     needsCloudFallback (processLocalQuery rt be query) = False \<and>
     route rt be cf fetch messages query =
       \<lparr>reply = response (processLocalQuery rt be query), origin = Local,
        cloud_calls = [], sent = []\<rparr> \<and>
     snd (processMessage rt be cf fetch clock messages query) =
       \<lparr>reply = response (processLocalQuery rt be query), origin = Local,
        cloud_calls = [], sent = []\<rparr> \<and>
     msg_content (last (fst (processMessage rt be cf fetch clock messages query))) =
       response (processLocalQuery rt be query)"
proof -
  assume "local_rule rt query"
  then have final: "\<not> needsCloudFallback (processLocalQuery rt be query)"
    by (rule local_rule_final)
  then have r: "route rt be cf fetch messages query =
       \<lparr>reply = response (processLocalQuery rt be query), origin = Local,
        cloud_calls = [], sent = []\<rparr>"
    by (simp add: route_def Let_def)
  show ?thesis
    using final r by (simp add: processMessage_routed processMessage_content)
qed

lemma hello_is_local: "local_rule ascii_runtime (ascii ''Hello there'')"
  by (simp add: local_rule_def ascii_runtime_def ascii_def lower_unit_def)

theorem local_rules_stay_local_witness:
  "local_rule ascii_runtime (ascii ''Hello there'') \<and>
   needsCloudFallback (processLocalQuery ascii_runtime fresh_backend (ascii ''Hello there'')) = False \<and>
   route ascii_runtime fresh_backend cloud_on unauthorized [] (ascii ''Hello there'') =
     \<lparr>reply = response (processLocalQuery ascii_runtime fresh_backend (ascii ''Hello there'')),
      origin = Local, cloud_calls = [], sent = []\<rparr> \<and>
   msg_content (last (fst (processMessage ascii_runtime fresh_backend cloud_on unauthorized
       (\<lambda>n. 1700000000000) [] (ascii ''Hello there'')))) =
     response (processLocalQuery ascii_runtime fresh_backend (ascii ''Hello there''))"
  using local_rules_stay_local [OF hello_is_local, where be = fresh_backend and cf = cloud_on
      and fetch = unauthorized and messages = "[]" and clock = "\<lambda>n. 1700000000000"]
    hello_is_local
  by simp

text \<open>
  Claim C3, as the code has it: for a query that matches none of the five local rules and
  is longer than 100 code units or contains \<open>explain\<close>, \<open>complex\<close> or
  \<open>detailed\<close>, with the cloud disabled or without a key, the text returned is the
  local text followed by the hint, and nothing is sent.
\<close>

theorem complex_query_hint:
  "\<not> local_rule rt query \<Longrightarrow>
   100 < length query \<or> includes_sub (toLowerCase rt query) (ascii ''explain'') \<or>
     includes_sub (toLowerCase rt query) (ascii ''complex'') \<or>
     includes_sub (toLowerCase rt query) (ascii ''detailed'') \<Longrightarrow>
   \<not> (isEnabled cf \<and> key_set cf) \<Longrightarrow>
     endsWith (reply (route rt be cf fetch messages query)) enable_hint \<and>
     reply (route rt be cf fetch messages query) =
       ascii ''This seems like a complex question that could benefit from advanced AI processing.''
         @ enable_hint \<and>
     sent (route rt be cf fetch messages query) = [] \<and>
     endsWith (msg_content (last (fst (processMessage rt be cf fetch clock messages query))))
       enable_hint"
proof -
  assume nl: "\<not> local_rule rt query"
    and cx: "100 < length query \<or> includes_sub (toLowerCase rt query) (ascii ''explain'') \<or>
      includes_sub (toLowerCase rt query) (ascii ''complex'') \<or>
      includes_sub (toLowerCase rt query) (ascii ''detailed'')"
    and off: "\<not> (isEnabled cf \<and> key_set cf)"
  have loc: "processLocalQuery rt be query =
      \<lparr>response = ascii ''This seems like a complex question that could benefit from advanced AI processing.'',
       needsCloudFallback = True\<rparr>"
    using nl cx unfolding local_rule_def processLocalQuery_def Let_def by auto
  have r: "route rt be cf fetch messages query =
      \<lparr>reply = ascii ''This seems like a complex question that could benefit from advanced AI processing.''
         @ enable_hint, origin = Local, cloud_calls = [], sent = []\<rparr>"
    using off by (auto simp add: route_def Let_def loc getStatus_def)
  show ?thesis
    by (simp add: processMessage_content r endsWith_append)
qed

lemma explain_no_local: "\<not> local_rule ascii_runtime (ascii ''Explain quantum physics'')"
  by (simp add: local_rule_def ascii_runtime_def ascii_def lower_unit_def)

lemma explain_is_complex:
  "includes_sub (toLowerCase ascii_runtime (ascii ''Explain quantum physics'')) (ascii ''explain'')"
  by (simp add: ascii_runtime_def ascii_def lower_unit_def)

theorem complex_query_hint_witness:
  "\<not> local_rule ascii_runtime (ascii ''Explain quantum physics'') \<and>
   includes_sub (toLowerCase ascii_runtime (ascii ''Explain quantum physics'')) (ascii ''explain'') \<and>
   isEnabled cloud_off = False \<and>
   endsWith (reply (route ascii_runtime fresh_backend cloud_off unreachable []
       (ascii ''Explain quantum physics''))) enable_hint \<and>
   sent (route ascii_runtime fresh_backend cloud_off unreachable []
       (ascii ''Explain quantum physics'')) = []"
proof -
  have off: "\<not> (isEnabled cloud_off \<and> key_set cloud_off)"
    by (simp add: cloud_off_def)
  have cx: "100 < length (ascii ''Explain quantum physics'') \<or>
      includes_sub (toLowerCase ascii_runtime (ascii ''Explain quantum physics'')) (ascii ''explain'') \<or>
      includes_sub (toLowerCase ascii_runtime (ascii ''Explain quantum physics'')) (ascii ''complex'') \<or>
      includes_sub (toLowerCase ascii_runtime (ascii ''Explain quantum physics'')) (ascii ''detailed'')"
    using explain_is_complex by blast
  have "endsWith (reply (route ascii_runtime fresh_backend cloud_off unreachable []
       (ascii ''Explain quantum physics''))) enable_hint \<and>
     sent (route ascii_runtime fresh_backend cloud_off unreachable []
       (ascii ''Explain quantum physics'')) = []"
    using complex_query_hint [OF explain_no_local cx off, where be = fresh_backend
        and fetch = unreachable and messages = "[]"]
    by blast
  then show ?thesis
    using explain_no_local explain_is_complex by (simp add: cloud_off_def)
qed

text \<open>
  Claim C3 as stated fails where an earlier rule answers: \<open>explain data\<close> contains
  \<open>explain\<close>, the cloud is off, and the text returned is the answer of rule 1, which
  does not end with the hint.
\<close>

theorem complex_query_hint_counterexample:
  "includes_sub (toLowerCase ascii_runtime (ascii ''explain data'')) (ascii ''explain'') \<and>
   isEnabled cloud_off = False \<and>
   reply (route ascii_runtime fresh_backend cloud_off unreachable [] (ascii ''explain data'')) =
     ascii ''I can help you analyze data! Please upload a dataset first using the data upload section.'' \<and>
   endsWith (ascii ''I can help you analyze data! Please upload a dataset first using the data upload section.'')
     enable_hint = False"
proof -
  have e: "includes_sub (toLowerCase ascii_runtime (ascii ''explain data'')) (ascii ''explain'')"
    by (simp add: ascii_runtime_def ascii_def lower_unit_def)
  have g: "getDatasets fresh_backend = []"
    by (simp add: getDatasets_def fresh_backend_db empty_database_def getAll_def)
  have c: "includes_sub (toLowerCase ascii_runtime (ascii ''explain data'')) (ascii ''data'')"
    by (simp add: ascii_runtime_def ascii_def lower_unit_def)
  have l: "processLocalQuery ascii_runtime fresh_backend (ascii ''explain data'') =
      \<lparr>response = ascii ''I can help you analyze data! Please upload a dataset first using the data upload section.'',
       needsCloudFallback = False\<rparr>"
    using c by (simp add: processLocalQuery_def Let_def g)
  have r: "reply (route ascii_runtime fresh_backend cloud_off unreachable [] (ascii ''explain data'')) =
     ascii ''I can help you analyze data! Please upload a dataset first using the data upload section.''"
    by (simp add: route_def Let_def l)
  have n: "endsWith (ascii ''I can help you analyze data! Please upload a dataset first using the data upload section.'')
     enable_hint = False"
    by (simp add: endsWith_def enable_hint_def ascii_def)
  show ?thesis using e r n by (simp add: cloud_off_def)
qed

section \<open>Properties of the cloud client\<close>

lemma processWithGPT_explicit:
  "(\<exists>msg. fst (processWithGPT cf fetch msgs options) = Inl (Error msg)) \<longleftrightarrow>
     (\<not> isEnabled cf \<or> \<not> key_set cf \<or>
      (\<exists>key r. apiKey cf = Some key \<and> fetch (gpt_request key msgs options) = Response r \<and> \<not> ok r))"
proof (cases "isEnabled cf \<and> key_set cf")
  case False
  then show ?thesis by (auto simp: processWithGPT_def)
next
  case True
  then obtain key where key: "apiKey cf = Some key"
    by (auto simp: key_set_def split: option.splits)
  show ?thesis
  proof (cases "fetch (gpt_request key msgs options)")
    case Rejected
    with True key show ?thesis by (simp add: processWithGPT_def Let_def)
  next
    case (Response r)
    with True key show ?thesis
      by (cases "body r") (simp_all add: processWithGPT_def Let_def)
  qed
qed

lemma route_cloud_failure:
  "needsCloudFallback (processLocalQuery rt be query) \<Longrightarrow> isEnabled cf \<Longrightarrow> key_set cf \<Longrightarrow>
   fst (chatWithGPT cf fetch query (history messages)) = Inl e \<Longrightarrow>
     route rt be cf fetch messages query =
       \<lparr>reply = response (processLocalQuery rt be query) @ enable_hint, origin = Local,
        cloud_calls = [(query, history messages)],
        sent = snd (chatWithGPT cf fetch query (history messages))\<rparr>"
  by (cases "chatWithGPT cf fetch query (history messages)")
     (simp add: route_def Let_def getStatus_def)

text \<open>
  Claim C7: \<open>processWithGPT\<close> ends in one of its own explicit errors exactly when the
  client is disabled, has no key, or the response is not \<open>ok\<close>; and when the cloud
  call of the router fails, with whatever error, the router returns the local text
  followed by the hint, marked as local, and that is what the message list shows.
\<close>

theorem cloud_failures:
  "((\<exists>msg. fst (processWithGPT cf fetch msgs options) = Inl (Error msg)) \<longleftrightarrow>
      (\<not> isEnabled cf \<or> \<not> key_set cf \<or>
       (\<exists>key r. apiKey cf = Some key \<and> fetch (gpt_request key msgs options) = Response r \<and> \<not> ok r))) \<and>
   (needsCloudFallback (processLocalQuery rt be query) \<and> isEnabled cf \<and> key_set cf \<and>
    fst (chatWithGPT cf fetch query (history messages)) = Inl e \<longrightarrow>
      reply (route rt be cf fetch messages query) =
        response (processLocalQuery rt be query) @ enable_hint \<and>
      origin (route rt be cf fetch messages query) = Local \<and>
      msg_content (last (fst (processMessage rt be cf fetch clock messages query))) =
        response (processLocalQuery rt be query) @ enable_hint)"
proof (intro conjI impI)
  show "(\<exists>msg. fst (processWithGPT cf fetch msgs options) = Inl (Error msg)) \<longleftrightarrow>
      (\<not> isEnabled cf \<or> \<not> key_set cf \<or>
       (\<exists>key r. apiKey cf = Some key \<and> fetch (gpt_request key msgs options) = Response r \<and> \<not> ok r))"
    by (rule processWithGPT_explicit)
next
  assume a: "needsCloudFallback (processLocalQuery rt be query) \<and> isEnabled cf \<and> key_set cf \<and>
    fst (chatWithGPT cf fetch query (history messages)) = Inl e"
  then have r: "route rt be cf fetch messages query =
       \<lparr>reply = response (processLocalQuery rt be query) @ enable_hint, origin = Local,
        cloud_calls = [(query, history messages)],
        sent = snd (chatWithGPT cf fetch query (history messages))\<rparr>"
    by (intro route_cloud_failure) simp_all
  show "reply (route rt be cf fetch messages query) =
        response (processLocalQuery rt be query) @ enable_hint"
    by (simp add: r)
  show "origin (route rt be cf fetch messages query) = Local"
    by (simp add: r)
  show "msg_content (last (fst (processMessage rt be cf fetch clock messages query))) =
        response (processLocalQuery rt be query) @ enable_hint"
    by (simp add: processMessage_content r)
qed

lemma cloud_on_ready: "isEnabled cloud_on \<and> key_set cloud_on \<and> apiKey cloud_on = Some (ascii ''sk-test'')"
  by (simp add: cloud_on_def cloud_off_def setEnabled_def setApiKey_def key_set_def ascii_def)

lemma story_needs_cloud:
  "needsCloudFallback (processLocalQuery ascii_runtime fresh_backend (ascii ''Tell me a story''))"
proof -
  have "\<not> local_rule ascii_runtime (ascii ''Tell me a story'')"
    by (simp add: local_rule_def ascii_runtime_def ascii_def lower_unit_def)
  then show ?thesis by (rule no_local_rule_fallback)
qed

lemma unauthorized_chat:
  "fst (chatWithGPT cloud_on unauthorized q h) =
     Inl (Error (ascii ''GPT API error: '' @ show_nat 401 @ ascii '' '' @ ascii ''Unauthorized''))"
  using cloud_on_ready by (simp add: chatWithGPT_def processWithGPT_def Let_def unauthorized_def)

theorem cloud_failures_witness:
  "isEnabled cloud_on \<and> key_set cloud_on \<and>
   apiKey cloud_on = Some (ascii ''sk-test'') \<and>
   unauthorized (gpt_request (ascii ''sk-test'') [] no_options) =
     Response \<lparr>ok = False, status = 401, statusText = ascii ''Unauthorized'', body = None\<rparr> \<and>
   (\<exists>msg. fst (processWithGPT cloud_on unauthorized [] no_options) = Inl (Error msg)) \<and>
   needsCloudFallback (processLocalQuery ascii_runtime fresh_backend (ascii ''Tell me a story'')) \<and>
   fst (chatWithGPT cloud_on unauthorized (ascii ''Tell me a story'') (history [])) =
     Inl (Error (ascii ''GPT API error: '' @ show_nat 401 @ ascii '' '' @ ascii ''Unauthorized'')) \<and>
   reply (route ascii_runtime fresh_backend cloud_on unauthorized [] (ascii ''Tell me a story'')) =
     response (processLocalQuery ascii_runtime fresh_backend (ascii ''Tell me a story'')) @ enable_hint \<and>
   origin (route ascii_runtime fresh_backend cloud_on unauthorized [] (ascii ''Tell me a story'')) = Local"
proof -
  have u: "unauthorized (gpt_request (ascii ''sk-test'') [] no_options) =
     Response \<lparr>ok = False, status = 401, statusText = ascii ''Unauthorized'', body = None\<rparr>"
    by (simp add: unauthorized_def)
  have third: "\<exists>key r. apiKey cloud_on = Some key \<and>
      unauthorized (gpt_request key [] no_options) = Response r \<and> \<not> ok r"
  proof -
    have "apiKey cloud_on = Some (ascii ''sk-test'') \<and>
        unauthorized (gpt_request (ascii ''sk-test'') [] no_options) =
          Response \<lparr>ok = False, status = 401, statusText = ascii ''Unauthorized'', body = None\<rparr> \<and>
        \<not> ok \<lparr>ok = False, status = 401, statusText = ascii ''Unauthorized'', body = None\<rparr>"
      using cloud_on_ready u by simp
    then show ?thesis by blast
  qed
  note w = cloud_failures [where cf = cloud_on and fetch = unauthorized and msgs = "[]"
      and options = no_options and rt = ascii_runtime and be = fresh_backend
      and query = "ascii ''Tell me a story''" and messages = "[]"
      and e = "Error (ascii ''GPT API error: '' @ show_nat 401 @ ascii '' '' @ ascii ''Unauthorized'')"]
  have explicit: "\<exists>msg. fst (processWithGPT cloud_on unauthorized [] no_options) = Inl (Error msg)"
    using w third by blast
  have routed: "reply (route ascii_runtime fresh_backend cloud_on unauthorized [] (ascii ''Tell me a story'')) =
     response (processLocalQuery ascii_runtime fresh_backend (ascii ''Tell me a story'')) @ enable_hint \<and>
   origin (route ascii_runtime fresh_backend cloud_on unauthorized [] (ascii ''Tell me a story'')) = Local"
    using w cloud_on_ready story_needs_cloud unauthorized_chat by blast
  show ?thesis
    using cloud_on_ready u explicit story_needs_cloud unauthorized_chat routed by blast
qed

section \<open>Properties of keyword extraction\<close>

lemma proto_inherited: "ascii ''__proto__'' \<in> set object_prototype"
  by (simp add: object_prototype_def)

lemma count_step:
  assumes w: "w \<notin> set object_prototype"
    and d: "distinct (map fst fr)"
    and m: "\<And>k. map_of fr k = (if c k = 0 then None else Some (Count (c k)))"
  shows "distinct (map fst (set_property fr w (next_tally rt fr w)))"
    and "\<And>k. map_of (set_property fr w (next_tally rt fr w)) k =
           (if (c(w := c w + 1)) k = 0 then None else Some (Count ((c(w := c w + 1)) k)))"
proof -
  have np: "w \<noteq> ascii ''__proto__''"
    using w proto_inherited by auto
  have nt: "next_tally rt fr w = Count (c w + 1)"
    using w by (simp add: next_tally_def m [of w])
  have sp: "set_property fr w (next_tally rt fr w) = AList.update w (Count (c w + 1)) fr"
    using np by (simp add: set_property_def nt)
  show "distinct (map fst (set_property fr w (next_tally rt fr w)))"
    using d by (simp add: sp distinct_update)
  fix k
  show "map_of (set_property fr w (next_tally rt fr w)) k =
           (if (c(w := c w + 1)) k = 0 then None else Some (Count ((c(w := c w + 1)) k)))"
    by (simp add: sp update_conv' m)
qed

lemma count_fold:
  "set ws \<inter> set object_prototype = {} \<Longrightarrow> distinct (map fst fr) \<Longrightarrow>
   (\<And>k. map_of fr k = (if c k = 0 then None else Some (Count (c k)))) \<Longrightarrow>
     distinct (map fst (fold (\<lambda>word frequency.
         set_property frequency word (next_tally rt frequency word)) ws fr)) \<and>
     (\<forall>k. map_of (fold (\<lambda>word frequency.
         set_property frequency word (next_tally rt frequency word)) ws fr) k =
        (if c k + count_list ws k = 0 then None else Some (Count (c k + count_list ws k))))"
proof (induction ws arbitrary: fr c)
  case Nil
  then show ?case by simp
next
  case (Cons w ws)
  have w: "w \<notin> set object_prototype" and rest: "set ws \<inter> set object_prototype = {}"
    using Cons.prems(1) by auto
  note step = count_step [OF w Cons.prems(2), of c rt, OF Cons.prems(3)]
  have ih: "distinct (map fst (fold (\<lambda>word frequency.
         set_property frequency word (next_tally rt frequency word)) ws
           (set_property fr w (next_tally rt fr w)))) \<and>
     (\<forall>k. map_of (fold (\<lambda>word frequency.
         set_property frequency word (next_tally rt frequency word)) ws
           (set_property fr w (next_tally rt fr w))) k =
        (if (c(w := c w + 1)) k + count_list ws k = 0 then None
         else Some (Count ((c(w := c w + 1)) k + count_list ws k))))"
    by (rule Cons.IH [OF rest step(1) step(2)])
  then show ?case by auto
qed

lemma count_words_map:
  assumes "set ws \<inter> set object_prototype = {}"
  shows "distinct (map fst (count_words rt ws))"
    and "map_of (count_words rt ws) k =
           (if k \<in> set ws then Some (Count (count_list ws k)) else None)"
proof -
  have init: "\<And>k. map_of ([] :: (jsstring \<times> tally) list) k =
      (if (\<lambda>_. 0::nat) k = 0 then None else Some (Count ((\<lambda>_. 0) k)))"
    by simp
  have both: "distinct (map fst (count_words rt ws)) \<and>
      (\<forall>k. map_of (count_words rt ws) k =
        (if 0 + count_list ws k = 0 then None else Some (Count (0 + count_list ws k))))"
    unfolding count_words_def
    by (rule count_fold [OF assms _ init]) simp
  show "distinct (map fst (count_words rt ws))"
    using both by simp
  show "map_of (count_words rt ws) k =
           (if k \<in> set ws then Some (Count (count_list ws k)) else None)"
    using both by (simp add: count_list_0_iff)
qed

lemma count_words_keys:
  assumes "set ws \<inter> set object_prototype = {}"
  shows "set (map fst (count_words rt ws)) = set ws"
proof -
  have "set (map fst (count_words rt ws)) = dom (map_of (count_words rt ws))"
    by (simp add: dom_map_of_conv_image_fst)
  also have "\<dots> = set ws"
    using count_words_map(2) [OF assms, of rt] by (auto simp: dom_def split: if_splits)
  finally show ?thesis .
qed

lemma count_words_length:
  assumes "set ws \<inter> set object_prototype = {}"
  shows "length (count_words rt ws) = card (set ws)"
proof -
  have "length (count_words rt ws) = length (map fst (count_words rt ws))"
    by simp
  also have "\<dots> = card (set (map fst (count_words rt ws)))"
    by (rule distinct_card [symmetric, OF count_words_map(1) [OF assms]])
  also have "\<dots> = card (set ws)"
    by (simp only: count_words_keys [OF assms])
  finally show ?thesis .
qed

lemma count_words_entry:
  assumes "set ws \<inter> set object_prototype = {}" and "(k, v) \<in> set (count_words rt ws)"
  shows "v = Count (count_list ws k) \<and> 1 \<le> count_list ws k"
proof -
  have "map_of (count_words rt ws) k = Some v"
    using count_words_map(1) [OF assms(1), of rt] assms(2) by (rule map_of_is_SomeI)
  then have kv: "k \<in> set ws \<and> v = Count (count_list ws k)"
    using count_words_map(2) [OF assms(1), of rt k] by (auto split: if_splits)
  then have "count_list ws k \<noteq> 0"
    by (simp add: count_list_0_iff)
  with kv show ?thesis
    by simp
qed

lemma set_entries: "set (entries obj) = set obj"
  by (auto simp: entries_def)

lemma length_entries: "length (entries obj) = length obj"
proof -
  have "length (filter (\<lambda>(key, v). array_index key \<noteq> None) obj) +
        length (filter (\<lambda>(key, v). array_index key = None) obj) = length obj"
    by (induction obj) auto
  then show ?thesis by (simp add: entries_def)
qed

lemma set_insert_by: "set (insert_by after x ys) = insert x (set ys)"
  by (induction ys) auto

lemma length_insert_by: "length (insert_by after x ys) = Suc (length ys)"
  by (induction ys) auto

lemma set_sort_by: "set (sort_by after xs) = set xs"
  by (induction xs) (simp_all add: sort_by_def set_insert_by)

lemma length_sort_by: "length (sort_by after xs) = length xs"
  by (induction xs) (simp_all add: sort_by_def length_insert_by)

text \<open>
  Claim C5, as the code has it: when the qualifying tokens of a text take fewer than 10
  distinct values, none of them a property name of \<open>Object.prototype\<close>,
  \<open>extractKeywords\<close> returns one entry for each distinct token, and the count of an
  entry is the number of occurrences of its word, which is at least 1.
\<close>

theorem keywords_per_distinct_token:
  "set (keyword_words rt text) \<inter> set object_prototype = {} \<Longrightarrow>
   card (set (keyword_words rt text)) < 10 \<Longrightarrow>
     length (keyword_list (extractKeywords rt text)) = card (set (keyword_words rt text)) \<and>
     (\<forall>k \<in> set (keyword_list (extractKeywords rt text)).
        count k = Count (count_list (keyword_words rt text) (word k)) \<and>
        1 \<le> count_list (keyword_words rt text) (word k))"
proof -
  assume np: "set (keyword_words rt text) \<inter> set object_prototype = {}"
    and few: "card (set (keyword_words rt text)) < 10"
  define ws where "ws = keyword_words rt text"
  define es where "es = sort_by count_after (entries (count_words rt ws))"
  have kl: "keyword_list (extractKeywords rt text) = map (\<lambda>(w, c). \<lparr>word = w, count = c\<rparr>) (take 10 es)"
    by (simp add: extractKeywords_def Let_def ws_def es_def)
  have len: "length es = card (set ws)"
    using np by (simp add: es_def length_sort_by length_entries count_words_length ws_def)
  then have all: "take 10 es = es"
    using few by (simp add: ws_def)
  have mem: "set es = set (count_words rt ws)"
    by (simp add: es_def set_sort_by set_entries)
  have "length (keyword_list (extractKeywords rt text)) = card (set ws)"
    by (simp add: kl all len)
  moreover have "\<forall>k \<in> set (keyword_list (extractKeywords rt text)).
        count k = Count (count_list ws (word k)) \<and> 1 \<le> count_list ws (word k)"
  proof
    fix k
    assume "k \<in> set (keyword_list (extractKeywords rt text))"
    then obtain w c where wc: "(w, c) \<in> set (count_words rt ws)" and k: "k = \<lparr>word = w, count = c\<rparr>"
      using mem by (auto simp: kl all)
    from count_words_entry [of ws w c rt] np wc
    have "c = Count (count_list ws w) \<and> 1 \<le> count_list ws w"
      by (simp add: ws_def)
    then show "count k = Count (count_list ws (word k)) \<and> 1 \<le> count_list ws (word k)"
      by (simp add: k)
  qed
  ultimately show ?thesis
    by (simp add: ws_def)
qed

lemma greeting_words:
  "keyword_words ascii_runtime (ascii ''Testing testing, hello WORLD'') =
     map ascii [''testing'', ''testing'', ''hello'', ''world'']"
  by (simp add: keyword_words_def ascii_runtime_def split_ws_def ascii_def is_ws_def
      is_word_unit_def lower_unit_def)

theorem keywords_per_distinct_token_witness:
  "set (keyword_words ascii_runtime (ascii ''Testing testing, hello WORLD'')) \<inter> set object_prototype = {} \<and>
   card (set (keyword_words ascii_runtime (ascii ''Testing testing, hello WORLD''))) = 3 \<and>
   length (keyword_list (extractKeywords ascii_runtime (ascii ''Testing testing, hello WORLD''))) = 3 \<and>
   map count (keyword_list (extractKeywords ascii_runtime (ascii ''Testing testing, hello WORLD''))) =
     [Count 2, Count 1, Count 1]"
proof -
  have np: "set (keyword_words ascii_runtime (ascii ''Testing testing, hello WORLD'')) \<inter>
      set object_prototype = {}"
    unfolding greeting_words by (simp add: object_prototype_def ascii_def)
  have three: "card (set (keyword_words ascii_runtime (ascii ''Testing testing, hello WORLD''))) = 3"
    unfolding greeting_words by (simp add: ascii_def)
  have few: "card (set (keyword_words ascii_runtime (ascii ''Testing testing, hello WORLD''))) < 10"
    by (simp add: three)
  have counts: "map count (keyword_list (extractKeywords ascii_runtime (ascii ''Testing testing, hello WORLD''))) =
     [Count 2, Count 1, Count 1]"
    unfolding extractKeywords_def Let_def greeting_words
    by (simp add: count_words_def next_tally_def set_property_def object_prototype_def
        entries_def array_index_def is_digit_def sort_by_def ascii_def)
  from keywords_per_distinct_token [OF np few] np three counts
  show ?thesis by simp
qed

text \<open>
  Claim C5 as stated fails when a token repeats: \<open>testing testing\<close> has two
  qualifying tokens and one entry, with count 2.
\<close>

theorem keywords_per_distinct_token_counterexample:
  "keyword_words ascii_runtime (ascii ''testing testing'') = [ascii ''testing'', ascii ''testing''] \<and>
   length (keyword_words ascii_runtime (ascii ''testing testing'')) = 2 \<and>
   keyword_list (extractKeywords ascii_runtime (ascii ''testing testing'')) =
     [\<lparr>word = ascii ''testing'', count = Count 2\<rparr>] \<and>
   length (keyword_list (extractKeywords ascii_runtime (ascii ''testing testing''))) = 1"
proof -
  have w: "keyword_words ascii_runtime (ascii ''testing testing'') = [ascii ''testing'', ascii ''testing'']"
    by (simp add: keyword_words_def ascii_runtime_def split_ws_def ascii_def is_ws_def
      is_word_unit_def lower_unit_def)
  have k: "keyword_list (extractKeywords ascii_runtime (ascii ''testing testing'')) =
     [\<lparr>word = ascii ''testing'', count = Count 2\<rparr>]"
    unfolding extractKeywords_def Let_def w
    by (simp add: count_words_def next_tally_def set_property_def object_prototype_def
        entries_def array_index_def is_digit_def sort_by_def ascii_def)
  show ?thesis by (simp add: w k)
qed

section \<open>Properties of the CSV import\<close>

lemma update_fresh: "k \<notin> fst ` set al \<Longrightarrow> AList.update k v al = al @ [(k, v)]"
  by (induction al) auto

lemma fold_set_property:
  "distinct (map fst ps) \<Longrightarrow> fst ` set ps \<inter> fst ` set acc = {} \<Longrightarrow>
   ascii ''__proto__'' \<notin> fst ` set ps \<Longrightarrow>
     fold (\<lambda>(header, index) row. set_property row header (g index)) ps acc =
       acc @ map (\<lambda>(header, index). (header, g index)) ps"
proof (induction ps arbitrary: acc)
  case Nil
  then show ?case by simp
next
  case (Cons p ps)
  obtain h i where p: "p = (h, i)" by (cases p)
  have fresh: "h \<notin> fst ` set acc" and np: "h \<noteq> ascii ''__proto__''"
    using Cons.prems p by auto
  have step: "set_property acc h (g i) = acc @ [(h, g i)]"
    using np by (simp add: set_property_def update_fresh [OF fresh])
  have d: "distinct (map fst ps)" and n: "ascii ''__proto__'' \<notin> fst ` set ps"
    using Cons.prems by auto
  have "h \<notin> fst ` set ps"
    using Cons.prems(1) p by (auto simp: image_iff)
  then have disj: "fst ` set ps \<inter> fst ` set (acc @ [(h, g i)]) = {}"
    using Cons.prems(2) by auto
  show ?case
    using Cons.IH [OF d disj n] by (simp add: p step)
qed

text \<open>
  Claim C8: the three-line text gives the two records \<open>{a: 1, b: "x"}\<close> and
  \<open>{a: 2, b: "y"}\<close> in this order; and in every row each header (the headers
  distinct, none of them \<open>__proto__\<close>) holds the coercion of the cell at its own
  index, a number where \<open>parseFloat\<close> reads one and the cell's string otherwise.
\<close>

theorem parseCSV_example:
  "parseCSV (ascii ''a,b'' @ [0xA] @ ascii ''1,x'' @ [0xA] @ ascii ''2,y'') =
     [Obj [(ascii ''a'', Number (Num 1)), (ascii ''b'', Str (ascii ''x''))],
      Obj [(ascii ''a'', Number (Num 2)), (ascii ''b'', Str (ascii ''y''))]] \<and>
   (distinct headers \<and> ascii ''__proto__'' \<notin> set headers \<longrightarrow>
      parse_row headers line =
        Obj (map (\<lambda>(header, index). (header, coerce (cell (map clean (split_on 0x2C line)) index)))
               (zip headers [0..<length headers]))) \<and>
   coerce v = (if parseFloat v = NaN then Str v else Number (parseFloat v))"
proof (intro conjI impI)
  show "parseCSV (ascii ''a,b'' @ [0xA] @ ascii ''1,x'' @ [0xA] @ ascii ''2,y'') =
     [Obj [(ascii ''a'', Number (Num 1)), (ascii ''b'', Str (ascii ''x''))],
      Obj [(ascii ''a'', Number (Num 2)), (ascii ''b'', Str (ascii ''y''))]]"
    by (simp add: parseCSV_def parse_row_def clean_def trim_def split_on_def coerce_def cell_def
        set_property_def parseFloat_def split_sign_def ascii_def is_ws_def is_digit_def
        exponent_part_def power10_def digits_value_def Let_def)
next
  assume a: "distinct headers \<and> ascii ''__proto__'' \<notin> set headers"
  have fsts: "map fst (zip headers [0..<length headers]) = headers"
    by simp
  then have img: "fst ` set (zip headers [0..<length headers]) = set headers"
    by (metis set_map)
  show "parse_row headers line =
        Obj (map (\<lambda>(header, index). (header, coerce (cell (map clean (split_on 0x2C line)) index)))
               (zip headers [0..<length headers]))"
    unfolding parse_row_def Let_def
    using fold_set_property [of "zip headers [0..<length headers]" "[]"
        "\<lambda>index. coerce (cell (map clean (split_on 0x2C line)) index)"] a
    by (simp add: fsts img)
next
  show "coerce v = (if parseFloat v = NaN then Str v else Number (parseFloat v))"
    by (cases "parseFloat v") (simp_all add: coerce_def)
qed

theorem parseCSV_example_witness:
  "distinct [ascii ''a'', ascii ''b''] \<and>
   ascii ''__proto__'' \<notin> set [ascii ''a'', ascii ''b''] \<and>
   parse_row [ascii ''a'', ascii ''b''] (ascii ''1,x'') =
     Obj (map (\<lambda>(header, index). (header, coerce (cell (map clean (split_on 0x2C (ascii ''1,x''))) index)))
            (zip [ascii ''a'', ascii ''b''] [0..<length [ascii ''a'', ascii ''b'']])) \<and>
   parse_row [ascii ''a'', ascii ''b''] (ascii ''1,x'') =
     Obj [(ascii ''a'', Number (Num 1)), (ascii ''b'', Str (ascii ''x''))]"
proof -
  have h: "distinct [ascii ''a'', ascii ''b''] \<and> ascii ''__proto__'' \<notin> set [ascii ''a'', ascii ''b'']"
    by (simp add: ascii_def)
  have e: "parse_row [ascii ''a'', ascii ''b''] (ascii ''1,x'') =
     Obj [(ascii ''a'', Number (Num 1)), (ascii ''b'', Str (ascii ''x''))]"
    by (simp add: parse_row_def clean_def trim_def split_on_def coerce_def cell_def
        set_property_def parseFloat_def split_sign_def ascii_def is_ws_def is_digit_def
        exponent_part_def power10_def digits_value_def Let_def)
  from parseCSV_example [of "[ascii ''a'', ascii ''b'']" "ascii ''1,x''"] h e
  show ?thesis by blast
qed

end
